theory Spec2Isabelle
  imports Main "HOL-Library.AList" "HOL-Library.Char_ord" "HOL-Library.List_Lexorder"
begin

section \<open>The github-proxy request handler (cmd/github-proxy/github-proxy.go)\<close>

text \<open>
  The handler function of \<^verbatim>\<open>main\<close> is embedded as a pure function from the process
  state (monitor table, gauge, published authenticator), the per-request environment
  (clock readings, the outcome of the upstream transport, the logging toggle) and the
  inbound request to the new state, the contents of the response writer, the list of
  upstream calls made and the log lines written. Strings are byte lists, as Go's are.
\<close>

subsection \<open>Library functions the handler calls\<close>

text \<open>\<^verbatim>\<open>strings.HasPrefix(s, prefix)\<close>.\<close>

definition HasPrefix :: "string \<Rightarrow> string \<Rightarrow> bool" where
  "HasPrefix s p = (length p \<le> length s \<and> take (length p) s = p)"

text \<open>
  \<^verbatim>\<open>strconv.Atoi\<close> on a 64-bit platform: an optional sign, then decimal digits. A
  syntax error returns 0; a value out of range returns the nearest bound, both with an
  error.
\<close>

datatype num_error = ErrSyntax | ErrRange

definition digit_of :: "char \<Rightarrow> int option" where
  "digit_of c = map_of (zip ''0123456789'' [0, 1, 2, 3, 4, 5, 6, 7, 8, 9]) c"

fun digits_val :: "string \<Rightarrow> int \<Rightarrow> int option" where
  "digits_val [] n = Some n"
| "digits_val (c # cs) n =
     (case digit_of c of None \<Rightarrow> None | Some d \<Rightarrow> digits_val cs (n * 10 + d))"

definition parse_unsigned :: "bool \<Rightarrow> string \<Rightarrow> int \<times> num_error option" where
  "parse_unsigned neg s =
     (if s = [] then (0, Some ErrSyntax)
      else case digits_val s 0 of
        None \<Rightarrow> (0, Some ErrSyntax)
      | Some un \<Rightarrow>
          if \<not> neg \<and> un \<ge> 9223372036854775808 then (9223372036854775807, Some ErrRange)
          else if neg \<and> un > 9223372036854775808 then (- 9223372036854775808, Some ErrRange)
          else (if neg then - un else un, None))"

fun Atoi :: "string \<Rightarrow> int \<times> num_error option" where
  "Atoi [] = (0, Some ErrSyntax)"
| "Atoi (c # cs) =
     (if c = CHR ''-'' then parse_unsigned True cs
      else if c = CHR ''+'' then parse_unsigned False cs
      else parse_unsigned False (c # cs))"

text \<open>
  \<^verbatim>\<open>http.Header\<close>: a map from canonical keys to value lists.
  \<^verbatim>\<open>textproto.CanonicalMIMEHeaderKey\<close> upper-cases the first letter and every letter
  after a hyphen and lower-cases the rest, and leaves a key with a byte that is not a
  token byte as it is.
\<close>

type_synonym Header = "string \<rightharpoonup> string list"

definition lower_letters :: string where
  "lower_letters = ''abcdefghijklmnopqrstuvwxyz''"

definition upper_letters :: string where
  "upper_letters = ''ABCDEFGHIJKLMNOPQRSTUVWXYZ''"

definition toUpper :: "char \<Rightarrow> char" where
  "toUpper c = (case map_of (zip lower_letters upper_letters) c of Some u \<Rightarrow> u | None \<Rightarrow> c)"

definition toLower :: "char \<Rightarrow> char" where
  "toLower c = (case map_of (zip upper_letters lower_letters) c of Some l \<Rightarrow> l | None \<Rightarrow> c)"

definition validHeaderFieldByte :: "char \<Rightarrow> bool" where
  "validHeaderFieldByte c =
     (c \<in> set lower_letters \<or> c \<in> set upper_letters \<or> c \<in> set ''0123456789''
      \<or> c \<in> set ''!#$%&*+-.^_|~'' \<or> c = CHR 0x27 \<or> c = CHR 0x60)"

fun canonKey :: "bool \<Rightarrow> string \<Rightarrow> string" where
  "canonKey upper [] = []"
| "canonKey upper (c # cs) =
     (let c' = (if upper then toUpper c else toLower c)
      in c' # canonKey (c' = CHR ''-'') cs)"

definition CanonicalMIMEHeaderKey :: "string \<Rightarrow> string" where
  "CanonicalMIMEHeaderKey s = (if list_all validHeaderFieldByte s then canonKey True s else s)"

definition header_Get :: "Header \<Rightarrow> string \<Rightarrow> string" where
  "header_Get h key =
     (case h (CanonicalMIMEHeaderKey key) of Some (v # _) \<Rightarrow> v | _ \<Rightarrow> [])"

definition header_Set :: "Header \<Rightarrow> string \<Rightarrow> string \<Rightarrow> Header" where
  "header_Set h key v = h(CanonicalMIMEHeaderKey key \<mapsto> [v])"

text \<open>
  \<^verbatim>\<open>strconv.Quote\<close>, the verb \<^verbatim>\<open>%q\<close> of \<^verbatim>\<open>fmt.Sprintf\<close>, on printable ASCII: the string
  between double quotes, with a backslash before every double quote and backslash. The
  handler applies it to the three class names only.
\<close>

fun quote_body :: "string \<Rightarrow> string" where
  "quote_body [] = []"
| "quote_body (c # cs) =
     (if c = CHR 0x22 \<or> c = CHR 0x5C then CHR 0x5C # c # quote_body cs
      else c # quote_body cs)"

definition Quote :: "string \<Rightarrow> string" where
  "Quote s = CHR 0x22 # quote_body s @ [CHR 0x22]"

subsection \<open>Query strings (net/url)\<close>

text \<open>
  \<^verbatim>\<open>url.Values\<close> is a Go map from keys to value lists; it is kept as an association
  list with one entry per key. \<^verbatim>\<open>Values.Set\<close> replaces the values of a key, and the
  parser appends to them.
\<close>

type_synonym Values = "(string \<times> string list) list"

text \<open>The index expression \<^verbatim>\<open>m[key]\<close>: the values of the key, none when the key is absent.\<close>

definition values_index :: "Values \<Rightarrow> string \<Rightarrow> string list" where
  "values_index m k = (case map_of m k of None \<Rightarrow> [] | Some vs \<Rightarrow> vs)"

definition values_add :: "Values \<Rightarrow> string \<Rightarrow> string \<Rightarrow> Values" where
  "values_add m k v = AList.update k (values_index m k @ [v]) m"

definition values_Set :: "Values \<Rightarrow> string \<Rightarrow> string \<Rightarrow> Values" where
  "values_Set m k v = AList.update k [v] m"

text \<open>Hexadecimal digits and bytes, for percent-encoding.\<close>

definition unhex :: "char \<Rightarrow> nat option" where
  "unhex c =
     map_of (zip ''0123456789abcdefABCDEF''
       [0, 1, 2, 3, 4, 5, 6, 7, 8, 9, 10, 11, 12, 13, 14, 15, 10, 11, 12, 13, 14, 15]) c"

definition byte_of :: "nat \<Rightarrow> nat \<Rightarrow> char" where
  "byte_of hi lo =
     Char (odd lo) (odd (lo div 2)) (odd (lo div 4)) (odd (lo div 8))
          (odd hi) (odd (hi div 2)) (odd (hi div 4)) (odd (hi div 8))"

definition nibble :: "bool \<Rightarrow> bool \<Rightarrow> bool \<Rightarrow> bool \<Rightarrow> nat" where
  "nibble b0 b1 b2 b3 =
     (if b0 then 1 else 0) + (if b1 then 2 else 0) + (if b2 then 4 else 0)
     + (if b3 then 8 else 0)"

definition upperhex :: string where
  "upperhex = ''0123456789ABCDEF''"

text \<open>
  \<^verbatim>\<open>url.QueryUnescape\<close>: \<^verbatim>\<open>%XX\<close> is the byte XX, \<^verbatim>\<open>+\<close> is a space; a \<^verbatim>\<open>%\<close> that two
  hexadecimal digits do not follow is an error.
\<close>

fun QueryUnescape :: "string \<Rightarrow> string option" where
  "QueryUnescape [] = Some []"
| "QueryUnescape [c] = (if c = CHR ''%'' then None else Some [if c = CHR ''+'' then CHR '' '' else c])"
| "QueryUnescape [c, d] =
     (if c = CHR ''%'' then None
      else map_option ((#) (if c = CHR ''+'' then CHR '' '' else c)) (QueryUnescape [d]))"
| "QueryUnescape (c # h # l # rest) =
     (if c = CHR ''%'' then
        (case (unhex h, unhex l) of
           (Some a, Some b) \<Rightarrow> map_option ((#) (byte_of a b)) (QueryUnescape rest)
         | _ \<Rightarrow> None)
      else map_option ((#) (if c = CHR ''+'' then CHR '' '' else c))
             (QueryUnescape (h # l # rest)))"

text \<open>
  \<^verbatim>\<open>url.QueryEscape\<close>: letters, digits and \<^verbatim>\<open>-_.~\<close> stay, a space becomes \<^verbatim>\<open>+\<close>, every
  other byte becomes \<^verbatim>\<open>%XX\<close> in upper-case hexadecimal.
\<close>

definition shouldEscape :: "char \<Rightarrow> bool" where
  "shouldEscape c =
     (\<not> (c \<in> set lower_letters \<or> c \<in> set upper_letters \<or> c \<in> set ''0123456789''
         \<or> c \<in> set ''-_.~''))"

fun escape_byte :: "char \<Rightarrow> string" where
  "escape_byte (Char b0 b1 b2 b3 b4 b5 b6 b7) =
     [CHR ''%'', upperhex ! nibble b4 b5 b6 b7, upperhex ! nibble b0 b1 b2 b3]"

fun QueryEscape :: "string \<Rightarrow> string" where
  "QueryEscape [] = []"
| "QueryEscape (c # cs) =
     (if c = CHR '' '' then CHR ''+'' # QueryEscape cs
      else if shouldEscape c then escape_byte c @ QueryEscape cs
      else c # QueryEscape cs)"

text \<open>
  \<^verbatim>\<open>url.ParseQuery\<close>, whose error \<^verbatim>\<open>URL.Query\<close> drops. The loop cuts the query at each
  separator; a pair is left out when it is empty, when its key or value does not
  unescape and (Go 1.17 and later, \<open>semi = False\<close>) when it holds a semicolon. Before
  Go 1.17 (\<open>semi = True\<close>) the semicolon is a separator like \<^verbatim>\<open>&\<close>. The source does not
  fix the Go release, so \<open>semi\<close> is a parameter.
\<close>

fun cut :: "char \<Rightarrow> string \<Rightarrow> string \<times> string option" where
  "cut sep [] = ([], None)"
| "cut sep (c # cs) =
     (if c = sep then ([], Some cs)
      else (case cut sep cs of (a, r) \<Rightarrow> (c # a, r)))"

definition parse_pair :: "Values \<Rightarrow> string \<Rightarrow> Values" where
  "parse_pair m seg =
     (if seg = [] \<or> CHR '';'' \<in> set seg then m
      else case cut (CHR ''='') seg of (k, v) \<Rightarrow>
        (case QueryUnescape k of
           None \<Rightarrow> m
         | Some key \<Rightarrow>
             (case QueryUnescape (case v of None \<Rightarrow> [] | Some x \<Rightarrow> x) of
                None \<Rightarrow> m
              | Some val \<Rightarrow> values_add m key val)))"

fun parseQuery :: "bool \<Rightarrow> Values \<Rightarrow> string \<Rightarrow> string \<Rightarrow> Values" where
  "parseQuery semi m seg [] = parse_pair m seg"
| "parseQuery semi m seg (c # cs) =
     (if c = CHR ''&'' \<or> (semi \<and> c = CHR '';'') then parseQuery semi (parse_pair m seg) [] cs
      else parseQuery semi m (seg @ [c]) cs)"

definition url_Query :: "bool \<Rightarrow> string \<Rightarrow> Values" where
  "url_Query semi rawQuery = parseQuery semi [] [] rawQuery"

text \<open>
  \<^verbatim>\<open>Values.Encode\<close>: the keys in byte order, each with its values in their order, as
  \<^verbatim>\<open>key=value\<close> joined by \<^verbatim>\<open>&\<close>.
\<close>

definition encode_pairs :: "Values \<Rightarrow> (string \<times> string) list" where
  "encode_pairs m =
     concat (map (\<lambda>k. map (Pair k) (values_index m k)) (sort (map fst m)))"

fun join_amp :: "string list \<Rightarrow> string" where
  "join_amp [] = []"
| "join_amp [x] = x"
| "join_amp (x # y # ys) = x @ CHR ''&'' # join_amp (y # ys)"

definition pair_string :: "string \<times> string \<Rightarrow> string" where
  "pair_string p = QueryEscape (fst p) @ CHR ''='' # QueryEscape (snd p)"

definition Encode :: "Values \<Rightarrow> string" where
  "Encode m = join_amp (map pair_string (encode_pairs m))"

subsection \<open>Resource classification (lines 85-90)\<close>

definition classify :: "string \<Rightarrow> string" where
  "classify path =
     (if HasPrefix path ''/search/'' then ''search''
      else if path = ''/graphql'' then ''graphql''
      else ''core'')"

subsection \<open>The response writer (net/http)\<close>

text \<open>
  What the handler leaves in its \<^verbatim>\<open>http.ResponseWriter\<close>: the header map, the status
  code once \<^verbatim>\<open>WriteHeader\<close> has been called, and the body bytes written. The first
  \<^verbatim>\<open>WriteHeader\<close> wins, and a \<^verbatim>\<open>Write\<close> before any \<^verbatim>\<open>WriteHeader\<close> sends status 200.
  The record holds what the handler hands to the writer; what the server then does with
  it on the wire (the headers it adds, its checks on the status code, the statuses that
  carry no body) is outside the handler.
\<close>

record ResponseWriter =
  w_Header :: Header
  w_Status :: "int option"
  w_Body :: string

definition new_ResponseWriter :: ResponseWriter where
  "new_ResponseWriter = \<lparr>w_Header = Map.empty, w_Status = None, w_Body = []\<rparr>"

definition WriteHeader :: "ResponseWriter \<Rightarrow> int \<Rightarrow> ResponseWriter" where
  "WriteHeader w code =
     (case w_Status w of None \<Rightarrow> w\<lparr>w_Status := Some code\<rparr> | Some _ \<Rightarrow> w)"

definition Write :: "ResponseWriter \<Rightarrow> string \<Rightarrow> ResponseWriter" where
  "Write w b = (let w1 = WriteHeader w 200 in w1\<lparr>w_Body := w_Body w1 @ b\<rparr>)"

text \<open>
  \<^verbatim>\<open>http.Error(w, error, code)\<close>: two headers, the status, and the text followed by a
  newline (\<^verbatim>\<open>fmt.Fprintln\<close>).
\<close>

definition http_Error :: "ResponseWriter \<Rightarrow> string \<Rightarrow> int \<Rightarrow> ResponseWriter" where
  "http_Error w err code =
     (let w1 = w\<lparr>w_Header := header_Set (w_Header w) ''Content-Type'' ''text/plain; charset=utf-8''\<rparr>;
          w2 = w1\<lparr>w_Header := header_Set (w_Header w1) ''X-Content-Type-Options'' ''nosniff''\<rparr>;
          w3 = WriteHeader w2 code
      in Write w3 (err @ [CHR 0x0A]))"

definition StatusForbidden :: int where
  "StatusForbidden = 403"

definition StatusInternalServerError :: int where
  "StatusInternalServerError = 500"

subsection \<open>The rate-limit monitor (pkg/ratelimit)\<close>

text \<open>
  Modelled from the spec: the type \<^verbatim>\<open>ratelimit.Monitor\<close> of pkg/ratelimit, which is not
  among the sources. The handler builds it with the field \<^verbatim>\<open>HeaderPrefix\<close> alone (line 92);
  the other fields are the spec's RateLimitState: the remaining count, the reset instant
  (nanoseconds, as \<^verbatim>\<open>time.Duration\<close> counts) and whether the state is known.
\<close>

record Monitor =
  HeaderPrefix :: string
  known :: bool
  remaining :: int
  reset :: int

text \<open>
  Modelled from the spec: the monitor of line 92, \<^verbatim>\<open>&ratelimit.Monitor{HeaderPrefix: "X-"}\<close>,
  with the other fields at their initial values: before any response has been observed,
  the state is not known.
\<close>

definition new_Monitor :: Monitor where
  "new_Monitor = \<lparr>HeaderPrefix = ''X-'', known = False, remaining = 0, reset = 0\<rparr>"

text \<open>
  Modelled from the spec: \<^verbatim>\<open>Monitor.Get\<close>, which returns the remaining count, the
  duration from now to the reset instant, and whether the state is known.
\<close>

definition Monitor_Get :: "Monitor \<Rightarrow> int \<Rightarrow> int \<times> int \<times> bool" where
  "Monitor_Get m now = (remaining m, reset m - now, known m)"

text \<open>
  Modelled from the spec: \<^verbatim>\<open>Monitor.Update\<close>, which parses the remaining-quota header
  and the reset-time header (seconds since the epoch) and overwrites the state. The
  header names are the canonical ones behind the monitor's \<^verbatim>\<open>HeaderPrefix\<close>: the empty
  prefix reads the canonical names, the prefix \<^verbatim>\<open>X-\<close> the legacy ones. When either header
  does not parse, the state is not known.
\<close>

definition Monitor_Update :: "Monitor \<Rightarrow> Header \<Rightarrow> Monitor" where
  "Monitor_Update m h =
     (case Atoi (header_Get h (HeaderPrefix m @ ''RateLimit-Remaining'')) of
        (r, None) \<Rightarrow>
          (case Atoi (header_Get h (HeaderPrefix m @ ''RateLimit-Reset'')) of
             (t, None) \<Rightarrow> m\<lparr>known := True, remaining := r, reset := t * 1000000000\<rparr>
           | (_, Some _) \<Rightarrow> m\<lparr>known := False\<rparr>)
      | (_, Some _) \<Rightarrow> m\<lparr>known := False\<rparr>)"

subsection \<open>Process state and configuration (lines 37-48, 55, 66-80)\<close>

text \<open>
  The variables the handler closes over: the monitor table, the gauge vector (the value
  given to \<^verbatim>\<open>Set\<close> for each label, before its conversion to float64) and the
  authenticator, a closure over the client identifier and secret or nil.
\<close>

record proxy_state =
  monitors :: "string \<rightharpoonup> Monitor"
  rateLimitRemainingGauge :: "string \<rightharpoonup> int"
  authenticateRequest :: "(string \<times> string) option"

definition init_state :: proxy_state where
  "init_state =
     \<lparr>monitors = Map.empty,
      rateLimitRemainingGauge = [''core'' \<mapsto> 5000, ''search'' \<mapsto> 30],
      authenticateRequest = None\<rparr>"

record Config =
  GithubClientID :: string
  GithubClientSecret :: string

text \<open>The callback given to \<^verbatim>\<open>conf.Watch\<close> (lines 70-80), run on each configuration.\<close>

definition conf_Watch :: "proxy_state \<Rightarrow> Config \<Rightarrow> proxy_state" where
  "conf_Watch s cfg =
     (if GithubClientID cfg \<noteq> [] \<and> GithubClientSecret cfg \<noteq> []
      then s\<lparr>authenticateRequest := Some (GithubClientID cfg, GithubClientSecret cfg)\<rparr>
      else s)"

subsection \<open>Requests, responses and the environment of one request\<close>

record Request =
  Method :: string
  Path :: string
  RawQuery :: string
  ReqHeader :: Header
  ReqBody :: string

record UpstreamRequest =
  u_Method :: string
  u_Body :: string
  u_Scheme :: string
  u_Host :: string
  u_Path :: string
  u_RawQuery :: string
  u_Header :: Header

text \<open>
  An upstream response: reading its body gives the bytes \<open>RespBody\<close> and then the end
  of the stream or the read error \<open>RespBodyErr\<close>.
\<close>

record Response =
  StatusCode :: int
  RespHeader :: Header
  RespBody :: string
  RespBodyErr :: "string option"

text \<open>
  What one run of the handler reads from outside: the flag \<^verbatim>\<open>logRequests\<close>, the release
  of net/url, the clock at the \<^verbatim>\<open>time.Now()\<close> inside \<^verbatim>\<open>Get\<close> and at the one of line 98,
  the rendering of a \<^verbatim>\<open>time.Time\<close> by \<^verbatim>\<open>%s\<close>, and what \<^verbatim>\<open>http.DefaultClient.Do\<close> returns
  for a request: the text of an error, or a response.
\<close>

record env =
  logRequests :: bool
  semicolonSeparator :: bool
  nowGet :: int
  nowHandler :: int
  formatTime :: "int \<Rightarrow> string"
  Do :: "UpstreamRequest \<Rightarrow> string + Response"

datatype log_entry = LogPrint string | Log15Warn int string "string option"

record outcome =
  o_state :: proxy_state
  o_w :: ResponseWriter
  o_calls :: "UpstreamRequest list"
  o_log :: "log_entry list"

subsection \<open>The handler (lines 82-159)\<close>

text \<open>Lines 91-94: the monitor of the class, created when the table has none.\<close>

definition lookup_monitor ::
    "(string \<rightharpoonup> Monitor) \<Rightarrow> string \<Rightarrow> (string \<rightharpoonup> Monitor) \<times> Monitor" where
  "lookup_monitor ms resource =
     (case ms resource of
        None \<Rightarrow> (ms(resource \<mapsto> new_Monitor), new_Monitor)
      | Some m \<Rightarrow> (ms, m))"

text \<open>Line 99: the text of the rejection.\<close>

definition rate_limit_message :: "string \<Rightarrow> string \<Rightarrow> string" where
  "rate_limit_message resource timestamp =
     ''rate limit for '' @ Quote resource @ '' exceeded, reset at '' @ timestamp"

text \<open>Lines 103-109: the headers of the upstream request.\<close>

definition build_header :: "Header \<Rightarrow> Header" where
  "build_header rh =
     (let h0 = header_Set Map.empty ''User-Agent'' (header_Get rh ''User-Agent'');
          h1 = header_Set h0 ''Accept'' (header_Get rh ''Accept'');
          h2 = header_Set h1 ''Content-Type'' (header_Get rh ''Content-Type'')
      in if header_Get rh ''Authorization'' \<noteq> []
         then header_Set h2 ''Authorization'' (header_Get rh ''Authorization'')
         else h2)"

text \<open>Lines 74-77 and 112-117: the authenticator, when one is published.\<close>

definition authenticate :: "(string \<times> string) option \<Rightarrow> Values \<Rightarrow> Values" where
  "authenticate auth q =
     (case auth of
        None \<Rightarrow> q
      | Some (clientID, clientSecret) \<Rightarrow>
          values_Set (values_Set q ''client_id'' clientID) ''client_secret'' clientSecret)"

text \<open>Lines 83 and 103-129: the upstream request.\<close>

definition build_request :: "env \<Rightarrow> proxy_state \<Rightarrow> Request \<Rightarrow> UpstreamRequest" where
  "build_request e s r =
     \<lparr>u_Method = Method r,
      u_Body = ReqBody r,
      u_Scheme = ''https'',
      u_Host = ''api.github.com'',
      u_Path = Path r,
      u_RawQuery =
        Encode (authenticate (authenticateRequest s) (url_Query (semicolonSeparator e) (RawQuery r))),
      u_Header = build_header (ReqHeader r)\<rparr>"

text \<open>Lines 142-146: the gauge of the class.\<close>

definition update_gauge :: "(string \<rightharpoonup> int) \<Rightarrow> string \<Rightarrow> Header \<Rightarrow> (string \<rightharpoonup> int)" where
  "update_gauge g resource h =
     (let limit = header_Get h ''X-Ratelimit-Remaining''
      in if limit \<noteq> [] then g(resource \<mapsto> fst (Atoi limit)) else g)"

text \<open>
  Lines 148-158: the relay. \<^verbatim>\<open>io.Copy\<close> writes the bytes read before the end of the
  stream or the read error; \<^verbatim>\<open>ioutil.ReadAll\<close> returns those bytes and the error.
\<close>

definition relay :: "bool \<Rightarrow> Response \<Rightarrow> ResponseWriter \<Rightarrow> ResponseWriter \<times> log_entry list" where
  "relay logReq resp w =
     (let w1 = w\<lparr>w_Header := w_Header w ++ RespHeader resp\<rparr>;
          w2 = WriteHeader w1 (StatusCode resp)
      in if StatusCode resp < 400 \<or> \<not> logReq then (Write w2 (RespBody resp), [])
         else (let b = RespBody resp; err = RespBodyErr resp
               in (Write w2 b, [Log15Warn (StatusCode resp) b err])))"

definition handler :: "env \<Rightarrow> proxy_state \<Rightarrow> Request \<Rightarrow> outcome" where
  "handler e s r =
     (let resource = classify (Path r);
          (ms, rateLimit) = lookup_monitor (monitors s) resource;
          (rateLimitRemaining, rateLimitReset, rateLimitKnown) = Monitor_Get rateLimit (nowGet e);
          w = new_ResponseWriter
      in if rateLimitKnown \<and> (rateLimitRemaining < 1 \<and> rateLimitReset > 0) then
           (let nextTime = nowHandler e + rateLimitReset
            in \<lparr>o_state = s\<lparr>monitors := ms\<rparr>,
                o_w = http_Error w (rate_limit_message resource (formatTime e nextTime))
                        StatusForbidden,
                o_calls = [],
                o_log = []\<rparr>)
         else
           (let req2 = build_request e s r
            in case Do e req2 of
                 Inl err \<Rightarrow>
                   \<lparr>o_state = s\<lparr>monitors := ms\<rparr>,
                    o_w = http_Error w err StatusInternalServerError,
                    o_calls = [req2],
                    o_log = [LogPrint err]\<rparr>
               | Inr resp \<Rightarrow>
                   (let ms' = ms(resource \<mapsto> Monitor_Update rateLimit (RespHeader resp));
                        g' = update_gauge (rateLimitRemainingGauge s) resource (RespHeader resp);
                        (w', logs) = relay (logRequests e) resp w
                    in \<lparr>o_state = s\<lparr>monitors := ms', rateLimitRemainingGauge := g'\<rparr>,
                        o_w = w',
                        o_calls = [req2],
                        o_log = logs\<rparr>)))"

text \<open>The test of lines 95-96 on the monitor of the class.\<close>

definition rate_limited :: "Monitor \<Rightarrow> int \<Rightarrow> bool" where
  "rate_limited m now =
     (case Monitor_Get m now of (rem, rst, kn) \<Rightarrow> kn \<and> (rem < 1 \<and> rst > 0))"



subsection \<open>Notions used to state and prove the query-string properties\<close>

text \<open>
  A \<^verbatim>\<open>url.Values\<close> as the parser and \<^verbatim>\<open>Set\<close> build it: every key once, and no key with
  an empty value list.
\<close>

definition wf_values :: "Values \<Rightarrow> bool" where
  "wf_values m = (distinct (map fst m) \<and> list_all (\<lambda>p. snd p \<noteq> []) m)"

text \<open>One step of the parser on a decoded pair, and the values a list of pairs gives a key.\<close>

definition add_pair :: "Values \<Rightarrow> string \<times> string \<Rightarrow> Values" where
  "add_pair m p = values_add m (fst p) (snd p)"

definition values_of :: "(string \<times> string) list \<Rightarrow> string \<Rightarrow> string list" where
  "values_of ps k = map snd (filter (\<lambda>p. fst p = k) ps)"

text \<open>A byte that is neither a separator of pairs nor the separator of key and value.\<close>

definition plain :: "char \<Rightarrow> bool" where
  "plain c = (c \<noteq> CHR ''&'' \<and> c \<noteq> CHR '';'' \<and> c \<noteq> CHR ''='')"

text \<open>
  The handler run on a sequence of requests, one after the other, each with its own
  environment.
\<close>

fun serve :: "proxy_state \<Rightarrow> (env \<times> Request) list \<Rightarrow> proxy_state" where
  "serve s [] = s"
| "serve s ((e, r) # rs) = serve (o_state (handler e s r)) rs"

text \<open>Every monitor of a table has the header prefix of line 92.\<close>

definition prefixed :: "(string \<rightharpoonup> Monitor) \<Rightarrow> bool" where
  "prefixed ms = (\<forall>c m. ms c = Some m \<longrightarrow> HeaderPrefix m = ''X-'')"

subsection \<open>Concrete runs\<close>

text \<open>
  A mock environment whose transport returns a fixed result, a request, and a state in
  which the class core is known to be exhausted until the instant 100.
\<close>

definition mock_env :: "bool \<Rightarrow> string + Response \<Rightarrow> env" where
  "mock_env l result =
     \<lparr>logRequests = l, semicolonSeparator = False, nowGet = 40, nowHandler = 41,
      formatTime = (\<lambda>t. if t = 101 then ''t101'' else ''other''),
      Do = (\<lambda>_. result)\<rparr>"

definition mock_response :: "int \<Rightarrow> Header \<Rightarrow> string \<Rightarrow> Response" where
  "mock_response code h b =
     \<lparr>StatusCode = code, RespHeader = h, RespBody = b, RespBodyErr = None\<rparr>"

definition example_request :: "string \<Rightarrow> string \<Rightarrow> Request" where
  "example_request path query =
     \<lparr>Method = ''GET'', Path = path, RawQuery = query,
      ReqHeader = [''User-Agent'' \<mapsto> [''test'']], ReqBody = []\<rparr>"

definition exhausted_state :: proxy_state where
  "exhausted_state =
     init_state\<lparr>monitors := [''core'' \<mapsto> new_Monitor\<lparr>known := True, remaining := 0, reset := 100\<rparr>]\<rparr>"

definition ok_body :: string where
  \<open>ok_body = ''{"ok":true}''\<close>

section \<open>Properties\<close>

subsection \<open>The three ways through the handler\<close>

lemma Quote_classify: "Quote (classify p) = CHR 0x22 # classify p @ [CHR 0x22]"
  by (simp add: Quote_def classify_def)

lemma canonical_content_type: "CanonicalMIMEHeaderKey ''Content-Type'' = ''Content-Type''"
  by code_simp

lemma canonical_nosniff:
  "CanonicalMIMEHeaderKey ''X-Content-Type-Options'' = ''X-Content-Type-Options''"
  by code_simp

lemma http_Error_new:
  "http_Error new_ResponseWriter err code =
     \<lparr>w_Header = [''Content-Type'' \<mapsto> [''text/plain; charset=utf-8''],
                  ''X-Content-Type-Options'' \<mapsto> [''nosniff'']],
      w_Status = Some code, w_Body = err @ [CHR 0x0A]\<rparr>"
  by (simp add: http_Error_def new_ResponseWriter_def header_Set_def canonical_content_type
      canonical_nosniff WriteHeader_def Write_def Let_def)

lemma relay_new:
  "fst (relay l resp new_ResponseWriter) =
     \<lparr>w_Header = RespHeader resp, w_Status = Some (StatusCode resp), w_Body = RespBody resp\<rparr>"
  by (simp add: relay_def new_ResponseWriter_def WriteHeader_def Write_def Let_def)

lemma handler_rejected:
  assumes "lookup_monitor (monitors s) (classify (Path r)) = (ms, m)"
    and "rate_limited m (nowGet e)"
  shows "handler e s r =
     \<lparr>o_state = s\<lparr>monitors := ms\<rparr>,
      o_w = http_Error new_ResponseWriter
              (rate_limit_message (classify (Path r))
                 (formatTime e (nowHandler e + (reset m - nowGet e)))) StatusForbidden,
      o_calls = [], o_log = []\<rparr>"
  using assms by (simp add: handler_def rate_limited_def Monitor_Get_def Let_def)

lemma handler_failed:
  assumes "lookup_monitor (monitors s) (classify (Path r)) = (ms, m)"
    and "\<not> rate_limited m (nowGet e)"
    and "Do e (build_request e s r) = Inl err"
  shows "handler e s r =
     \<lparr>o_state = s\<lparr>monitors := ms\<rparr>,
      o_w = http_Error new_ResponseWriter err StatusInternalServerError,
      o_calls = [build_request e s r], o_log = [LogPrint err]\<rparr>"
  using assms by (simp add: handler_def rate_limited_def Monitor_Get_def Let_def)

lemma handler_relayed:
  assumes "lookup_monitor (monitors s) (classify (Path r)) = (ms, m)"
    and "\<not> rate_limited m (nowGet e)"
    and "Do e (build_request e s r) = Inr resp"
  shows "handler e s r =
     \<lparr>o_state = s\<lparr>monitors := ms(classify (Path r) \<mapsto> Monitor_Update m (RespHeader resp)),
                   rateLimitRemainingGauge :=
                     update_gauge (rateLimitRemainingGauge s) (classify (Path r)) (RespHeader resp)\<rparr>,
      o_w = fst (relay (logRequests e) resp new_ResponseWriter),
      o_calls = [build_request e s r],
      o_log = snd (relay (logRequests e) resp new_ResponseWriter)\<rparr>"
  using assms
  by (simp add: handler_def rate_limited_def Monitor_Get_def Let_def split: prod.splits)

subsection \<open>Classification\<close>

lemma HasPrefix_append: "HasPrefix (p @ x) p"
  by (simp add: HasPrefix_def)

lemma HasPrefix_iff: "HasPrefix s p \<longleftrightarrow> (\<exists>x. s = p @ x)"
proof
  assume "HasPrefix s p"
  then have "s = p @ drop (length p) s"
    by (metis HasPrefix_def append_take_drop_id)
  then show "\<exists>x. s = p @ x" ..
next
  assume "\<exists>x. s = p @ x"
  then show "HasPrefix s p"
    by (auto simp: HasPrefix_append)
qed

text \<open>
  C4: classification is a total function of the path alone: a path that starts with
  \<^verbatim>\<open>/search/\<close> is of class search, the path \<^verbatim>\<open>/graphql\<close> itself is of class graphql,
  every other path is of class core, and no other class exists.
\<close>

theorem classify_total:
  "classify (''/search/'' @ x) = ''search''
   \<and> classify ''/graphql'' = ''graphql''
   \<and> ((\<nexists>y. p = ''/search/'' @ y) \<and> p \<noteq> ''/graphql'' \<longrightarrow> classify p = ''core'')
   \<and> classify p \<in> {''core'', ''search'', ''graphql''}"
proof -
  have a: "classify (''/search/'' @ x) = ''search''"
    unfolding classify_def using HasPrefix_append [of "''/search/''" x] by simp
  have b: "classify ''/graphql'' = ''graphql''"
    by (simp add: classify_def HasPrefix_def)
  have c: "(\<nexists>y. p = ''/search/'' @ y) \<and> p \<noteq> ''/graphql'' \<longrightarrow> classify p = ''core''"
    unfolding classify_def using HasPrefix_iff [of p "''/search/''"] by auto
  have d: "classify p \<in> {''core'', ''search'', ''graphql''}"
    by (simp add: classify_def)
  from a b c d show ?thesis by blast
qed

theorem classify_total_witness:
  "classify ''/search/repositories'' = ''search''
   \<and> classify ''/graphql'' = ''graphql''
   \<and> classify ''/graphql/'' = ''core''
   \<and> classify ''/search'' = ''core''
   \<and> classify ''/repos/a/b'' = ''core''"
proof -
  have n1: "(\<nexists>y. ''/graphql/'' = ''/search/'' @ y) \<and> ''/graphql/'' \<noteq> ''/graphql''" by simp
  have n2: "(\<nexists>y. ''/search'' = ''/search/'' @ y) \<and> ''/search'' \<noteq> ''/graphql''" by simp
  have n3: "(\<nexists>y. ''/repos/a/b'' = ''/search/'' @ y) \<and> ''/repos/a/b'' \<noteq> ''/graphql''" by simp
  from classify_total [of "''repositories''" "''/graphql/''"] n1
    classify_total [of "''repositories''" "''/search''"] n2
    classify_total [of "''repositories''" "''/repos/a/b''"] n3
  show ?thesis by simp
qed


subsection \<open>Admission control\<close>

lemma lookup_monitor_cases:
  obtains ms m where "lookup_monitor (monitors s) c = (ms, m)"
  by (cases "lookup_monitor (monitors s) c") auto

text \<open>
  C1: when the monitor of the request's class reports a known state with less than one
  call remaining and a reset still ahead, the handler answers 403 with the plain-text
  body \<^verbatim>\<open>rate limit for "<class>" exceeded, reset at <instant>\<close>, where the instant is
  the clock reading of line 98 plus the duration \<^verbatim>\<open>Get\<close> returned, and makes no upstream
  call. \<^verbatim>\<open>http.Error\<close> ends the body with a newline.
\<close>

theorem admission_rejected:
  assumes "monitors s (classify (Path r)) = Some m"
    and "Monitor_Get m (nowGet e) = (rem, rst, True)"
    and "rem < 1" and "rst > 0"
  shows "w_Status (o_w (handler e s r)) = Some 403
    \<and> w_Body (o_w (handler e s r)) =
        ''rate limit for '' @ [CHR 0x22] @ classify (Path r) @ [CHR 0x22]
          @ '' exceeded, reset at '' @ formatTime e (nowHandler e + rst) @ [CHR 0x0A]
    \<and> w_Header (o_w (handler e s r)) ''Content-Type'' = Some [''text/plain; charset=utf-8'']
    \<and> o_calls (handler e s r) = []"
proof -
  from assms(2) have rst: "rst = reset m - nowGet e" and kn: "known m" and rem: "rem = remaining m"
    by (auto simp: Monitor_Get_def)
  have rl: "rate_limited m (nowGet e)"
    using assms by (simp add: rate_limited_def)
  have "handler e s r =
     \<lparr>o_state = s\<lparr>monitors := monitors s\<rparr>,
      o_w = http_Error new_ResponseWriter
              (rate_limit_message (classify (Path r))
                 (formatTime e (nowHandler e + (reset m - nowGet e)))) StatusForbidden,
      o_calls = [], o_log = []\<rparr>"
    by (rule handler_rejected [OF _ rl]) (simp add: lookup_monitor_def assms(1))
  then show ?thesis
    by (simp add: http_Error_new rate_limit_message_def Quote_classify StatusForbidden_def rst)
qed

theorem admission_rejected_witness:
  \<open>w_Status (o_w (handler (mock_env False (Inl ''unused'')) exhausted_state
              (example_request ''/repos/a/b'' []))) = Some 403
   \<and> w_Body (o_w (handler (mock_env False (Inl ''unused'')) exhausted_state
              (example_request ''/repos/a/b'' []))) =
       ''rate limit for "core" exceeded, reset at t101'' @ [CHR 0x0A]
   \<and> o_calls (handler (mock_env False (Inl ''unused'')) exhausted_state
              (example_request ''/repos/a/b'' [])) = []\<close>
  using admission_rejected [of exhausted_state "example_request ''/repos/a/b'' []"
      "new_Monitor\<lparr>known := True, remaining := 0, reset := 100\<rparr>"
      "mock_env False (Inl ''unused'')" 0 60]
  by (simp add: exhausted_state_def example_request_def mock_env_def classify_def HasPrefix_def
      Monitor_Get_def new_Monitor_def init_state_def)

subsection \<open>Relaying the upstream response\<close>

text \<open>
  C3: when the upstream call returns a response, the handler's writer holds exactly the
  upstream headers, the upstream status code and the upstream body bytes.
\<close>

theorem relay_unchanged:
  assumes "\<not> rate_limited (snd (lookup_monitor (monitors s) (classify (Path r)))) (nowGet e)"
    and "Do e (build_request e s r) = Inr resp"
  shows "w_Header (o_w (handler e s r)) = RespHeader resp
    \<and> w_Status (o_w (handler e s r)) = Some (StatusCode resp)
    \<and> w_Body (o_w (handler e s r)) = RespBody resp
    \<and> o_calls (handler e s r) = [build_request e s r]"
proof -
  obtain ms m where lm: "lookup_monitor (monitors s) (classify (Path r)) = (ms, m)"
    by (rule lookup_monitor_cases)
  with assms(1) have "\<not> rate_limited m (nowGet e)" by simp
  from handler_relayed [OF lm this assms(2)] show ?thesis
    by (simp add: relay_new)
qed

theorem relay_unchanged_witness:
  "w_Header (o_w (handler (mock_env False (Inr (mock_response 200 [''X-Test'' \<mapsto> [''1'']] ok_body)))
       init_state (example_request ''/repos/a/b'' []))) = [''X-Test'' \<mapsto> [''1'']]
   \<and> w_Status (o_w (handler (mock_env False (Inr (mock_response 200 [''X-Test'' \<mapsto> [''1'']] ok_body)))
       init_state (example_request ''/repos/a/b'' []))) = Some 200
   \<and> w_Body (o_w (handler (mock_env False (Inr (mock_response 200 [''X-Test'' \<mapsto> [''1'']] ok_body)))
       init_state (example_request ''/repos/a/b'' []))) = ok_body"
  using relay_unchanged [of init_state "example_request ''/repos/a/b'' []"
      "mock_env False (Inr (mock_response 200 [''X-Test'' \<mapsto> [''1'']] ok_body))"
      "mock_response 200 [''X-Test'' \<mapsto> [''1'']] ok_body"]
  by (simp add: example_request_def mock_env_def mock_response_def classify_def HasPrefix_def
      Monitor_Get_def new_Monitor_def init_state_def lookup_monitor_def rate_limited_def)

subsection \<open>Logging\<close>

lemma build_request_logRequests:
  "build_request (e\<lparr>logRequests := l\<rparr>) s r = build_request e s r"
  by (simp add: build_request_def)

lemma handler_logRequests_w:
  "o_w (handler (e\<lparr>logRequests := l\<rparr>) s r) = o_w (handler e s r)
   \<and> o_state (handler (e\<lparr>logRequests := l\<rparr>) s r) = o_state (handler e s r)
   \<and> o_calls (handler (e\<lparr>logRequests := l\<rparr>) s r) = o_calls (handler e s r)"
proof -
  obtain ms m where lm: "lookup_monitor (monitors s) (classify (Path r)) = (ms, m)"
    by (rule lookup_monitor_cases)
  show ?thesis
  proof (cases "rate_limited m (nowGet e)")
    case True
    then have "rate_limited m (nowGet (e\<lparr>logRequests := l\<rparr>))" by simp
    from handler_rejected [OF lm this] handler_rejected [OF lm True]
    show ?thesis by simp
  next
    case False
    then have nl: "\<not> rate_limited m (nowGet (e\<lparr>logRequests := l\<rparr>))" by simp
    show ?thesis
    proof (cases "Do e (build_request e s r)")
      case (Inl err)
      then have "Do (e\<lparr>logRequests := l\<rparr>) (build_request (e\<lparr>logRequests := l\<rparr>) s r) = Inl err"
        by (simp add: build_request_logRequests)
      from handler_failed [OF lm nl this] handler_failed [OF lm False Inl]
      show ?thesis by (simp add: build_request_logRequests)
    next
      case (Inr resp)
      then have "Do (e\<lparr>logRequests := l\<rparr>) (build_request (e\<lparr>logRequests := l\<rparr>) s r) = Inr resp"
        by (simp add: build_request_logRequests)
      from handler_relayed [OF lm nl this] handler_relayed [OF lm False Inr]
      show ?thesis by (simp add: build_request_logRequests relay_new)
    qed
  qed
qed

text \<open>
  C8: two runs of the handler that differ only in \<^verbatim>\<open>logRequests\<close> leave the same status,
  headers and body in the writer (and the same state and upstream calls); only the log
  differs. The wrapper of lines 160-162 belongs to a library outside the sources and is
  not part of the handler function.
\<close>

theorem logging_transparent:
  "o_w (handler (e\<lparr>logRequests := True\<rparr>) s r) = o_w (handler (e\<lparr>logRequests := False\<rparr>) s r)
   \<and> o_state (handler (e\<lparr>logRequests := True\<rparr>) s r)
       = o_state (handler (e\<lparr>logRequests := False\<rparr>) s r)
   \<and> o_calls (handler (e\<lparr>logRequests := True\<rparr>) s r)
       = o_calls (handler (e\<lparr>logRequests := False\<rparr>) s r)"
  using handler_logRequests_w [where e = e and l = True and s = s and r = r]
    handler_logRequests_w [where e = e and l = False and s = s and r = r] by simp


theorem logging_transparent_witness:
  "o_w (handler ((mock_env True (Inr (mock_response 500 Map.empty ''boom'')))\<lparr>logRequests := True\<rparr>)
       init_state (example_request ''/repos/a/b'' []))
     = \<lparr>w_Header = Map.empty, w_Status = Some 500, w_Body = ''boom''\<rparr>
   \<and> o_w (handler ((mock_env True (Inr (mock_response 500 Map.empty ''boom'')))\<lparr>logRequests := False\<rparr>)
       init_state (example_request ''/repos/a/b'' []))
     = \<lparr>w_Header = Map.empty, w_Status = Some 500, w_Body = ''boom''\<rparr>"
proof -
  have "o_w (handler (mock_env False (Inr (mock_response 500 Map.empty ''boom'')))
       init_state (example_request ''/repos/a/b'' []))
     = \<lparr>w_Header = Map.empty, w_Status = Some 500, w_Body = ''boom''\<rparr>"
    by (simp add: handler_def example_request_def mock_env_def mock_response_def classify_def
        HasPrefix_def Monitor_Get_def new_Monitor_def init_state_def lookup_monitor_def
        relay_def new_ResponseWriter_def WriteHeader_def Write_def Let_def)
  moreover have "(mock_env True (Inr (mock_response 500 Map.empty ''boom'')))\<lparr>logRequests := False\<rparr>
     = mock_env False (Inr (mock_response 500 Map.empty ''boom''))"
    by (simp add: mock_env_def)
  ultimately show ?thesis
    using logging_transparent [of "mock_env True (Inr (mock_response 500 Map.empty ''boom''))"
        init_state "example_request ''/repos/a/b'' []"]
    by simp
qed

subsection \<open>Transport failure\<close>

text \<open>
  C9: when the upstream call returns an error, the handler answers 500 with the error
  text as body, has made that one call and no other, and leaves the gauge and what
  \<^verbatim>\<open>Get\<close> reports for every class as they were.
\<close>

theorem transport_error:
  assumes "\<not> rate_limited (snd (lookup_monitor (monitors s) (classify (Path r)))) (nowGet e)"
    and "Do e (build_request e s r) = Inl err"
  shows "w_Status (o_w (handler e s r)) = Some 500
    \<and> w_Body (o_w (handler e s r)) = err @ [CHR 0x0A]
    \<and> o_calls (handler e s r) = [build_request e s r]
    \<and> rateLimitRemainingGauge (o_state (handler e s r)) = rateLimitRemainingGauge s
    \<and> (\<forall>c t. Monitor_Get (snd (lookup_monitor (monitors (o_state (handler e s r))) c)) t
             = Monitor_Get (snd (lookup_monitor (monitors s) c)) t)"
proof -
  obtain ms m where lm: "lookup_monitor (monitors s) (classify (Path r)) = (ms, m)"
    by (rule lookup_monitor_cases)
  with assms(1) have nl: "\<not> rate_limited m (nowGet e)" by simp
  have same: "snd (lookup_monitor ms c) = snd (lookup_monitor (monitors s) c)" for c
    using lm by (auto simp: lookup_monitor_def split: option.splits if_splits)
  from handler_failed [OF lm nl assms(2)] show ?thesis
    by (simp add: http_Error_new StatusInternalServerError_def same)
qed

theorem transport_error_witness:
  "w_Status (o_w (handler (mock_env False (Inl ''dial tcp: no such host'')) init_state
       (example_request ''/repos/a/b'' []))) = Some 500
   \<and> w_Body (o_w (handler (mock_env False (Inl ''dial tcp: no such host'')) init_state
       (example_request ''/repos/a/b'' []))) = ''dial tcp: no such host'' @ [CHR 0x0A]
   \<and> length (o_calls (handler (mock_env False (Inl ''dial tcp: no such host'')) init_state
       (example_request ''/repos/a/b'' []))) = 1
   \<and> rateLimitRemainingGauge (o_state (handler (mock_env False (Inl ''dial tcp: no such host''))
       init_state (example_request ''/repos/a/b'' []))) ''core'' = Some 5000"
  using transport_error [of init_state "example_request ''/repos/a/b'' []"
      "mock_env False (Inl ''dial tcp: no such host'')" "''dial tcp: no such host''"]
  by (simp add: example_request_def mock_env_def classify_def HasPrefix_def
      Monitor_Get_def new_Monitor_def init_state_def lookup_monitor_def rate_limited_def)

subsection \<open>The gauge\<close>





lemma Atoi_out_of_range_example:
  "Atoi ''99999999999999999999'' = (9223372036854775807, Some ErrRange)"
  by (simp add: parse_unsigned_def digit_of_def)




subsection \<open>The monitor table\<close>

lemma handler_monitors:
  "monitors (o_state (handler e s r)) = fst (lookup_monitor (monitors s) (classify (Path r)))
   \<or> (\<exists>resp. Do e (build_request e s r) = Inr resp
        \<and> monitors (o_state (handler e s r)) =
            (fst (lookup_monitor (monitors s) (classify (Path r))))
              (classify (Path r) \<mapsto>
                 Monitor_Update (snd (lookup_monitor (monitors s) (classify (Path r))))
                   (RespHeader resp)))"
proof -
  obtain ms m where lm: "lookup_monitor (monitors s) (classify (Path r)) = (ms, m)"
    by (rule lookup_monitor_cases)
  show ?thesis
  proof (cases "rate_limited m (nowGet e)")
    case True
    from handler_rejected [OF lm True] lm show ?thesis by simp
  next
    case False
    show ?thesis
    proof (cases "Do e (build_request e s r)")
      case (Inl err)
      from handler_failed [OF lm False Inl] lm show ?thesis by simp
    next
      case (Inr resp)
      from handler_relayed [OF lm False Inr] lm Inr show ?thesis by simp
    qed
  qed
qed

lemma lookup_monitor_fst:
  "fst (lookup_monitor ms c) c = Some (snd (lookup_monitor ms c))
   \<and> (\<forall>c'. c' \<noteq> c \<longrightarrow> fst (lookup_monitor ms c) c' = ms c')
   \<and> dom (fst (lookup_monitor ms c)) = insert c (dom ms)"
  by (auto simp: lookup_monitor_def split: option.splits if_splits)

lemma handler_dom: "dom (monitors (o_state (handler e s r))) = insert (classify (Path r)) (dom (monitors s))"
proof -
  note lf = lookup_monitor_fst [of "monitors s" "classify (Path r)"]
  from handler_monitors [of e s r] show ?thesis
  proof (elim disjE exE conjE)
    assume "monitors (o_state (handler e s r))
      = fst (lookup_monitor (monitors s) (classify (Path r)))"
    with lf show ?thesis by simp
  next
    fix resp
    assume "monitors (o_state (handler e s r)) =
      (fst (lookup_monitor (monitors s) (classify (Path r))))
        (classify (Path r) \<mapsto>
           Monitor_Update (snd (lookup_monitor (monitors s) (classify (Path r))))
             (RespHeader resp))"
    with lf show ?thesis by simp
  qed
qed

lemma serve_dom:
  "dom (monitors (serve s rs)) = dom (monitors s) \<union> (\<lambda>(e, r). classify (Path r)) ` set rs"
proof (induction rs arbitrary: s)
  case Nil
  then show ?case by simp
next
  case (Cons x rs)
  obtain e r where x: "x = (e, r)" by (cases x)
  show ?case using Cons [of "o_state (handler e s r)"] by (auto simp: x handler_dom)
qed

text \<open>
  C7, as the code has it: the table is empty at startup and filled on first use. After
  any sequence of requests it holds a monitor for exactly the classes requested so far;
  a request leaves the entries of the other classes alone, and the entry of its own
  class is afterwards the monitor that was there (or the new one of line 92 when there
  was none), updated from the response when one was received.
\<close>

theorem monitors_created_on_first_use:
  "monitors init_state = Map.empty
   \<and> dom (monitors (serve init_state rs)) = (\<lambda>(e, r). classify (Path r)) ` set rs
   \<and> (\<forall>c. c \<noteq> classify (Path r) \<longrightarrow> monitors (o_state (handler e s r)) c = monitors s c)
   \<and> (monitors (o_state (handler e s r)) (classify (Path r))
         = Some (snd (lookup_monitor (monitors s) (classify (Path r))))
       \<or> (\<exists>resp. Do e (build_request e s r) = Inr resp
            \<and> monitors (o_state (handler e s r)) (classify (Path r))
                = Some (Monitor_Update (snd (lookup_monitor (monitors s) (classify (Path r))))
                     (RespHeader resp))))"
proof -
  have a: "monitors init_state = Map.empty" by (simp add: init_state_def)
  have b: "dom (monitors (serve init_state rs)) = (\<lambda>(e, r). classify (Path r)) ` set rs"
    by (simp add: serve_dom a)
  have c: "\<forall>c. c \<noteq> classify (Path r) \<longrightarrow> monitors (o_state (handler e s r)) c = monitors s c"
    using handler_monitors [of e s r] lookup_monitor_fst [of "monitors s" "classify (Path r)"]
    by auto
  have d: "monitors (o_state (handler e s r)) (classify (Path r))
         = Some (snd (lookup_monitor (monitors s) (classify (Path r))))
       \<or> (\<exists>resp. Do e (build_request e s r) = Inr resp
            \<and> monitors (o_state (handler e s r)) (classify (Path r))
                = Some (Monitor_Update (snd (lookup_monitor (monitors s) (classify (Path r))))
                     (RespHeader resp)))"
    using handler_monitors [of e s r] lookup_monitor_fst [of "monitors s" "classify (Path r)"]
    by auto
  from a b c d show ?thesis by blast
qed

theorem monitors_created_on_first_use_witness:
  "dom (monitors (serve init_state [(mock_env False (Inl ''down''), example_request ''/search/code'' [])]))
     = {''search''}
   \<and> monitors (o_state (handler (mock_env False (Inl ''down'')) exhausted_state
        (example_request ''/search/code'' []))) ''core'' = monitors exhausted_state ''core''"
proof -
  have "classify (Path (example_request ''/search/code'' [])) = ''search''"
    by (simp add: example_request_def classify_def HasPrefix_def)
  then show ?thesis
    using monitors_created_on_first_use [of
      "[(mock_env False (Inl ''down''), example_request ''/search/code'' [])]"
      "example_request ''/search/code'' []" "mock_env False (Inl ''down'')" exhausted_state]
    by simp
qed

text \<open>
  C7 as stated fails: at startup the table has no monitor for core, and the first request
  of that class creates it.
\<close>

theorem monitors_at_startup_counterexample:
  "monitors init_state ''core'' = None
   \<and> monitors (o_state (handler (mock_env False (Inl ''down'')) init_state
        (example_request ''/repos/a/b'' []))) ''core'' = Some new_Monitor"
  by (simp add: handler_def example_request_def mock_env_def classify_def
        HasPrefix_def Monitor_Get_def new_Monitor_def init_state_def lookup_monitor_def Let_def)

subsection \<open>Bookkeeping headers\<close>




lemma handler_monitor_HeaderPrefix: "HeaderPrefix (Monitor_Update m h) = HeaderPrefix m"
  by (simp add: Monitor_Update_def split: prod.splits option.splits)

lemma prefixed_lookup:
  "prefixed ms \<Longrightarrow> prefixed (fst (lookup_monitor ms c)) \<and> HeaderPrefix (snd (lookup_monitor ms c)) = ''X-''"
  by (auto simp: prefixed_def lookup_monitor_def new_Monitor_def split: option.splits if_splits)

lemma prefixed_handler:
  assumes "prefixed (monitors s)"
  shows "prefixed (monitors (o_state (handler e s r)))"
proof -
  note pl = prefixed_lookup [OF assms, of "classify (Path r)"]
  from handler_monitors [of e s r] show ?thesis
  proof (elim disjE exE conjE)
    assume "monitors (o_state (handler e s r))
      = fst (lookup_monitor (monitors s) (classify (Path r)))"
    with pl show ?thesis by simp
  next
    fix resp
    assume "monitors (o_state (handler e s r)) =
      (fst (lookup_monitor (monitors s) (classify (Path r))))
        (classify (Path r) \<mapsto>
           Monitor_Update (snd (lookup_monitor (monitors s) (classify (Path r))))
             (RespHeader resp))"
    with pl show ?thesis
      by (auto simp: prefixed_def handler_monitor_HeaderPrefix)
  qed
qed

lemma prefixed_serve: "prefixed (monitors s) \<Longrightarrow> prefixed (monitors (serve s rs))"
  by (induction rs arbitrary: s) (auto simp: prefixed_handler)

lemma reachable_HeaderPrefix:
  "HeaderPrefix (snd (lookup_monitor (monitors (serve init_state rs)) c)) = ''X-''"
proof -
  have "prefixed (monitors init_state)" by (simp add: prefixed_def init_state_def)
  from prefixed_lookup [OF prefixed_serve [OF this]] show ?thesis by blast
qed





subsection \<open>Query strings: escaping, parsing and encoding\<close>

lemma nibble_bits:
  "odd (nibble a b c d) = a" "odd (nibble a b c d div 2) = b"
  "odd (nibble a b c d div 4) = c" "odd (nibble a b c d div 8) = d"
  by (cases a; cases b; cases c; cases d; simp add: nibble_def)+

lemma byte_of_nibble:
  "byte_of (nibble b4 b5 b6 b7) (nibble b0 b1 b2 b3) = Char b0 b1 b2 b3 b4 b5 b6 b7"
  by (simp add: byte_of_def nibble_bits)

lemma unhex_upperhex: "unhex (upperhex ! nibble a b c d) = Some (nibble a b c d)"
  by (cases a; cases b; cases c; cases d; simp add: nibble_def upperhex_def unhex_def)

lemma plain_upperhex: "plain (upperhex ! nibble a b c d)"
  by (cases a; cases b; cases c; cases d; simp add: nibble_def upperhex_def plain_def)

lemma not_shouldEscape:
  "\<not> shouldEscape c \<Longrightarrow> plain c \<and> c \<noteq> CHR ''%'' \<and> c \<noteq> CHR ''+''"
  by (auto simp: shouldEscape_def plain_def lower_letters_def upper_letters_def)

lemma plain_escape_byte: "list_all plain (escape_byte c)"
proof -
  obtain b0 b1 b2 b3 b4 b5 b6 b7 where c: "c = Char b0 b1 b2 b3 b4 b5 b6 b7" by (cases c)
  have "plain CHR ''%''" by (simp add: plain_def)
  then show ?thesis unfolding c by (simp add: plain_upperhex)
qed

lemma QueryEscape_plain: "list_all plain (QueryEscape s)"
proof (induction s)
  case Nil
  then show ?case by simp
next
  case (Cons c s)
  have "plain CHR ''+''" by (simp add: plain_def)
  with Cons not_shouldEscape [of c] plain_escape_byte [of c] show ?case
    by simp
qed

lemma QueryUnescape_plain:
  "c \<noteq> CHR ''%'' \<Longrightarrow>
   QueryUnescape (c # cs) = map_option ((#) (if c = CHR ''+'' then CHR '' '' else c)) (QueryUnescape cs)"
  by (cases cs rule: QueryUnescape.cases) auto

lemma QueryUnescape_escape_byte:
  "QueryUnescape (escape_byte c @ rest) = map_option ((#) c) (QueryUnescape rest)"
proof -
  obtain b0 b1 b2 b3 b4 b5 b6 b7 where c: "c = Char b0 b1 b2 b3 b4 b5 b6 b7" by (cases c)
  show ?thesis unfolding c by (simp add: unhex_upperhex byte_of_nibble)
qed

lemma QueryUnescape_QueryEscape: "QueryUnescape (QueryEscape s) = Some s"
proof (induction s)
  case Nil
  then show ?case by simp
next
  case (Cons c s)
  show ?case
  proof (cases "c = CHR '' ''")
    case True
    with Cons show ?thesis by (simp add: QueryUnescape_plain)
  next
    case sp: False
    show ?thesis
    proof (cases "shouldEscape c")
      case True
      with sp Cons show ?thesis
        by (simp add: QueryUnescape_escape_byte)
    next
      case False
      with sp Cons not_shouldEscape [of c] show ?thesis
        by (simp add: QueryUnescape_plain)
    qed
  qed
qed

lemma cut_append: "sep \<notin> set a \<Longrightarrow> cut sep (a @ sep # b) = (a, Some b)"
  by (induction a) auto

lemma plain_set: "list_all plain s \<Longrightarrow> CHR ''&'' \<notin> set s \<and> CHR '';'' \<notin> set s \<and> CHR ''='' \<notin> set s"
  by (auto simp: list_all_iff plain_def)

lemma parse_pair_pair_string: "parse_pair m (pair_string (k, v)) = values_add m k v"
proof -
  have "CHR ''='' \<notin> set (QueryEscape k)" "CHR '';'' \<notin> set (QueryEscape k)"
    "CHR '';'' \<notin> set (QueryEscape v)"
    using plain_set [OF QueryEscape_plain] by auto
  then show ?thesis
    by (simp add: parse_pair_def pair_string_def cut_append QueryUnescape_QueryEscape)
qed

lemma pair_string_seps:
  "c \<in> set (pair_string p) \<Longrightarrow> c \<noteq> CHR ''&'' \<and> c \<noteq> CHR '';''"
  using plain_set [OF QueryEscape_plain, of "fst p"] plain_set [OF QueryEscape_plain, of "snd p"]
  by (auto simp: pair_string_def)

lemma parseQuery_segment:
  "(\<And>c. c \<in> set x \<Longrightarrow> c \<noteq> CHR ''&'' \<and> c \<noteq> CHR '';'') \<Longrightarrow>
   parseQuery semi m seg (x @ rest) = parseQuery semi m (seg @ x) rest"
  by (induction x arbitrary: seg) auto


lemma parseQuery_join:
  "parseQuery semi m [] (join_amp (map pair_string ps)) = foldl add_pair m ps"
proof (induction ps arbitrary: m rule: induct_list012)
  case 1
  then show ?case by (simp add: parse_pair_def)
next
  case (2 p)
  have "parseQuery semi m [] (pair_string p @ []) = parseQuery semi m ([] @ pair_string p) []"
    by (rule parseQuery_segment) (rule pair_string_seps)
  then show ?case
    using parse_pair_pair_string [of m "fst p" "snd p"] by (simp add: add_pair_def)
next
  case (3 p q ps)
  note IH = 3(2)
  have "parseQuery semi m [] (pair_string p @ CHR ''&'' # join_amp (map pair_string (q # ps)))
     = parseQuery semi m ([] @ pair_string p) (CHR ''&'' # join_amp (map pair_string (q # ps)))"
    by (rule parseQuery_segment) (rule pair_string_seps)
  then show ?case
    using IH [of "add_pair m p"] parse_pair_pair_string [of m "fst p" "snd p"]
    by (simp add: add_pair_def)
qed


lemma map_of_add_pair:
  "map_of (add_pair m p) = (map_of m)(fst p \<mapsto> values_index m (fst p) @ [snd p])"
  by (simp add: add_pair_def values_add_def update_conv')

lemma values_index_add_pair:
  "values_index (add_pair m p) k =
     (if k = fst p then values_index m k @ [snd p] else values_index m k)"
  by (simp add: values_index_def map_of_add_pair)

lemma values_index_foldl:
  "values_index (foldl add_pair m ps) k = values_index m k @ values_of ps k"
  by (induction ps arbitrary: m) (simp_all add: values_of_def values_index_add_pair)

lemma map_of_foldl:
  "map_of (foldl add_pair m ps) k =
     (if values_of ps k = [] then map_of m k else Some (values_index m k @ values_of ps k))"
proof (induction ps arbitrary: m)
  case Nil
  then show ?case by (simp add: values_of_def)
next
  case (Cons p ps)
  show ?case
    using Cons [of "add_pair m p"]
    by (auto simp: values_of_def values_index_add_pair map_of_add_pair)
qed

lemma values_of_Pair: "values_of (map (Pair k') vs) k = (if k' = k then vs else [])"
  by (induction vs) (auto simp: values_of_def)

lemma values_of_append: "values_of (xs @ ys) k = values_of xs k @ values_of ys k"
  by (simp add: values_of_def)

lemma values_of_concat:
  "distinct ks \<Longrightarrow>
   values_of (concat (map (\<lambda>k'. map (Pair k') (f k')) ks)) k = (if k \<in> set ks then f k else [])"
proof (induction ks)
  case Nil
  then show ?case by (simp add: values_of_def)
next
  case (Cons a ks)
  then show ?case by (auto simp: values_of_append values_of_Pair)
qed

lemma values_of_encode_pairs:
  "distinct (map fst m) \<Longrightarrow>
   values_of (encode_pairs m) k = (if k \<in> fst ` set m then values_index m k else [])"
  unfolding encode_pairs_def by (subst values_of_concat) simp_all

lemma wf_values_map_of:
  assumes "wf_values m"
  shows "map_of m k = (if k \<in> fst ` set m \<and> values_index m k \<noteq> [] then Some (values_index m k) else None)"
proof (cases "map_of m k")
  case None
  then show ?thesis by (simp add: values_index_def map_of_eq_None_iff)
next
  case (Some vs)
  then have "(k, vs) \<in> set m" by (rule map_of_SomeD)
  with assms have "vs \<noteq> []" "k \<in> fst ` set m"
    by (auto simp: wf_values_def list_all_iff intro: rev_image_eqI)
  with Some show ?thesis by (simp add: values_index_def)
qed

lemma url_Query_Encode:
  assumes "wf_values m"
  shows "map_of (url_Query semi (Encode m)) = map_of m"
proof
  fix k
  from assms have d: "distinct (map fst m)" by (simp add: wf_values_def)
  have "map_of (url_Query semi (Encode m)) k =
      (if values_of (encode_pairs m) k = [] then None else Some (values_of (encode_pairs m) k))"
    by (simp add: url_Query_def Encode_def parseQuery_join map_of_foldl values_index_def)
  also have "\<dots> = map_of m k"
    by (simp add: values_of_encode_pairs [OF d] wf_values_map_of [OF assms, of k])
  finally show "map_of (url_Query semi (Encode m)) k = map_of m k" .
qed

lemma list_all_update:
  "list_all P al \<Longrightarrow> P (k, v) \<Longrightarrow> list_all P (AList.update k v al)"
  by (induction al) auto

lemma wf_values_update: "wf_values m \<Longrightarrow> v \<noteq> [] \<Longrightarrow> wf_values (AList.update k v m)"
  by (simp add: wf_values_def distinct_update list_all_update)

lemma wf_values_add: "wf_values m \<Longrightarrow> wf_values (values_add m k v)"
  by (simp add: values_add_def wf_values_update)

lemma wf_values_Set: "wf_values m \<Longrightarrow> wf_values (values_Set m k v)"
  by (simp add: values_Set_def wf_values_update)

lemma wf_parse_pair: "wf_values m \<Longrightarrow> wf_values (parse_pair m seg)"
  by (auto simp: parse_pair_def wf_values_add split: prod.splits option.splits)

lemma wf_parseQuery: "wf_values m \<Longrightarrow> wf_values (parseQuery semi m seg cs)"
  by (induction cs arbitrary: m seg) (auto simp: wf_parse_pair)

lemma wf_url_Query: "wf_values (url_Query semi q)"
  unfolding url_Query_def by (rule wf_parseQuery) (simp add: wf_values_def)

lemma wf_authenticate: "wf_values q \<Longrightarrow> wf_values (authenticate a q)"
  by (auto simp: authenticate_def wf_values_Set split: option.splits)

lemma Encode_cong:
  assumes "distinct (map fst m1)" "distinct (map fst m2)" "map_of m1 = map_of m2"
  shows "Encode m1 = Encode m2"
proof -
  have "fst ` set m1 = fst ` set m2"
    using assms(3) by (metis dom_map_of_conv_image_fst)
  then have "set (sort (map fst m1)) = set (sort (map fst m2))" by simp
  then have "sort (map fst m1) = sort (map fst m2)"
    using assms(1,2) by (intro sorted_distinct_set_unique) simp_all
  moreover have "values_index m1 = values_index m2"
    using assms(3) by (simp add: values_index_def fun_eq_iff)
  ultimately show ?thesis by (simp add: Encode_def encode_pairs_def)
qed

lemma Encode_canonical:
  assumes "wf_values m"
  shows "Encode (url_Query semi (Encode m)) = Encode m"
proof (rule Encode_cong)
  show "distinct (map fst (url_Query semi (Encode m)))"
    using wf_url_Query [of semi "Encode m"] by (simp add: wf_values_def)
  show "distinct (map fst m)" using assms by (simp add: wf_values_def)
  show "map_of (url_Query semi (Encode m)) = map_of m" by (rule url_Query_Encode [OF assms])
qed


subsection \<open>Credential injection\<close>

lemma conf_Watch_invalid_all:
  "list_all (\<lambda>cfg. GithubClientID cfg = [] \<or> GithubClientSecret cfg = []) cfgs \<Longrightarrow>
   authenticateRequest (foldl conf_Watch s cfgs) = authenticateRequest s"
  by (induction cfgs arbitrary: s) (auto simp: conf_Watch_def)

lemma handler_authenticateRequest:
  "authenticateRequest (o_state (handler e s r)) = authenticateRequest s"
proof -
  obtain ms m where lm: "lookup_monitor (monitors s) (classify (Path r)) = (ms, m)"
    by (rule lookup_monitor_cases)
  show ?thesis
  proof (cases "rate_limited m (nowGet e)")
    case True
    from handler_rejected [OF lm True] show ?thesis by simp
  next
    case False
    show ?thesis
    proof (cases "Do e (build_request e s r)")
      case (Inl err)
      from handler_failed [OF lm False Inl] show ?thesis by simp
    next
      case (Inr resp)
      from handler_relayed [OF lm False Inr] show ?thesis by simp
    qed
  qed
qed

text \<open>
  C5, as the code has it. The upstream query string is always the encoding, by
  \<^verbatim>\<open>Values.Encode\<close>, of the parsed inbound query. With an authenticator published,
  parsing the upstream query gives the inbound parameters with \<^verbatim>\<open>client_id\<close> and
  \<^verbatim>\<open>client_secret\<close> set to the one published value each. With none published, parsing
  it gives the inbound parameters, and it is the inbound query string itself when that
  is already such an encoding. The authenticator is absent at startup, is set by each
  configuration with both fields non-empty, and is left alone by every other
  configuration and by the handler.
\<close>

theorem credential_injection:
  "(authenticateRequest s = Some (clientID, clientSecret) \<longrightarrow>
      map_of (url_Query semi (u_RawQuery (build_request e s r)))
        = (map_of (url_Query (semicolonSeparator e) (RawQuery r)))
            (''client_id'' \<mapsto> [clientID], ''client_secret'' \<mapsto> [clientSecret]))
   \<and> (authenticateRequest s = None \<longrightarrow>
      u_RawQuery (build_request e s r) = Encode (url_Query (semicolonSeparator e) (RawQuery r))
      \<and> map_of (url_Query semi (u_RawQuery (build_request e s r)))
          = map_of (url_Query (semicolonSeparator e) (RawQuery r))
      \<and> (wf_values m \<and> RawQuery r = Encode m \<longrightarrow>
           u_RawQuery (build_request e s r) = RawQuery r))
   \<and> authenticateRequest init_state = None
   \<and> (GithubClientID cfg \<noteq> [] \<and> GithubClientSecret cfg \<noteq> [] \<longrightarrow>
        authenticateRequest (conf_Watch s cfg) = Some (GithubClientID cfg, GithubClientSecret cfg))
   \<and> (GithubClientID cfg = [] \<or> GithubClientSecret cfg = [] \<longrightarrow>
        authenticateRequest (conf_Watch s cfg) = authenticateRequest s)
   \<and> authenticateRequest (o_state (handler e s r)) = authenticateRequest s"
proof -
  let ?q = "url_Query (semicolonSeparator e) (RawQuery r)"
  have wq: "wf_values ?q" by (rule wf_url_Query)
  have a: "authenticateRequest s = Some (clientID, clientSecret) \<longrightarrow>
      map_of (url_Query semi (u_RawQuery (build_request e s r)))
        = (map_of ?q)(''client_id'' \<mapsto> [clientID], ''client_secret'' \<mapsto> [clientSecret])"
  proof
    assume au: "authenticateRequest s = Some (clientID, clientSecret)"
    have "wf_values (authenticate (authenticateRequest s) ?q)"
      by (rule wf_authenticate [OF wq])
    from url_Query_Encode [OF this, of semi] show "map_of (url_Query semi (u_RawQuery (build_request e s r)))
        = (map_of ?q)(''client_id'' \<mapsto> [clientID], ''client_secret'' \<mapsto> [clientSecret])"
      by (simp add: build_request_def au authenticate_def values_Set_def update_conv')
  qed
  have b1: "authenticateRequest s = None \<longrightarrow>
      u_RawQuery (build_request e s r) = Encode ?q"
    by (simp add: build_request_def authenticate_def)
  have b2: "authenticateRequest s = None \<longrightarrow>
      map_of (url_Query semi (u_RawQuery (build_request e s r))) = map_of ?q"
    using url_Query_Encode [OF wq, of semi] by (simp add: build_request_def authenticate_def)
  have b3: "authenticateRequest s = None \<longrightarrow> (wf_values m \<and> RawQuery r = Encode m \<longrightarrow>
           u_RawQuery (build_request e s r) = RawQuery r)"
    using Encode_canonical [of m "semicolonSeparator e"]
    by (simp add: build_request_def authenticate_def)
  have c: "authenticateRequest init_state = None" by (simp add: init_state_def)
  have d: "GithubClientID cfg \<noteq> [] \<and> GithubClientSecret cfg \<noteq> [] \<longrightarrow>
        authenticateRequest (conf_Watch s cfg) = Some (GithubClientID cfg, GithubClientSecret cfg)"
    by (simp add: conf_Watch_def)
  have f: "GithubClientID cfg = [] \<or> GithubClientSecret cfg = [] \<longrightarrow>
        authenticateRequest (conf_Watch s cfg) = authenticateRequest s"
    by (auto simp: conf_Watch_def)
  from a b1 b2 b3 c d f handler_authenticateRequest [of e s r] show ?thesis by blast
qed

lemma encode_example_plain: "Encode (url_Query False ''b=1&a=2'') = ''a=2&b=1''"
  by code_simp

lemma encode_example_auth:
  "Encode (values_Set (values_Set (url_Query False ''client_ie=1&client_id=old'') ''client_id'' ''abc'')
      ''client_secret'' ''def'') = ''client_id=abc&client_ie=1&client_secret=def''"
  by code_simp

text \<open>
  C5 as stated fails. With no authenticator the inbound query \<^verbatim>\<open>b=1&a=2\<close> goes upstream
  as \<^verbatim>\<open>a=2&b=1\<close>; with the credentials abc and def published, the inbound query
  \<^verbatim>\<open>client_ie=1&client_id=old\<close> goes upstream with \<^verbatim>\<open>client_ie=1\<close> between the two
  credential parameters.
\<close>

theorem credential_injection_counterexample:
  "authenticateRequest init_state = None
   \<and> map u_RawQuery (o_calls (handler (mock_env False (Inl ''down'')) init_state
        (example_request ''/repos/a/b'' ''b=1&a=2''))) = [''a=2&b=1'']
   \<and> map u_RawQuery (o_calls (handler (mock_env False (Inl ''down''))
        (conf_Watch init_state \<lparr>GithubClientID = ''abc'', GithubClientSecret = ''def''\<rparr>)
        (example_request ''/repos/a/b'' ''client_ie=1&client_id=old'')))
       = [''client_id=abc&client_ie=1&client_secret=def'']"
  by (simp add: handler_def example_request_def mock_env_def classify_def
        HasPrefix_def Monitor_Get_def new_Monitor_def init_state_def lookup_monitor_def Let_def
        build_request_def authenticate_def conf_Watch_def encode_example_plain encode_example_auth
        del: join_amp.simps)


lemma query_example_parsed:
  "url_Query False ''b=1&client_id=old'' = [(''b'', [''1'']), (''client_id'', [''old''])]"
  by code_simp

lemma encode_example_canonical: "Encode [(''a'', [''2'']), (''b'', [''1''])] = ''a=2&b=1''"
  by code_simp

theorem credential_injection_witness:
  "map_of (url_Query False (u_RawQuery (build_request (mock_env False (Inl ''down''))
      (conf_Watch init_state \<lparr>GithubClientID = ''abc'', GithubClientSecret = ''def''\<rparr>)
      (example_request ''/repos/a/b'' ''b=1&client_id=old''))))
     = [''b'' \<mapsto> [''1''], ''client_id'' \<mapsto> [''abc''], ''client_secret'' \<mapsto> [''def'']]
   \<and> u_RawQuery (build_request (mock_env False (Inl ''down'')) init_state
        (example_request ''/repos/a/b'' ''a=2&b=1'')) = ''a=2&b=1''"
proof -
  have w: "wf_values [(''a'', [''2'']), (''b'', [''1''])]"
    by (simp add: wf_values_def)
  have 1: "map_of (url_Query False (u_RawQuery (build_request (mock_env False (Inl ''down''))
      (conf_Watch init_state \<lparr>GithubClientID = ''abc'', GithubClientSecret = ''def''\<rparr>)
      (example_request ''/repos/a/b'' ''b=1&client_id=old''))))
     = [''b'' \<mapsto> [''1''], ''client_id'' \<mapsto> [''abc''], ''client_secret'' \<mapsto> [''def'']]"
    using credential_injection [where s = "conf_Watch init_state
          \<lparr>GithubClientID = ''abc'', GithubClientSecret = ''def''\<rparr>"
        and clientID = "''abc''" and clientSecret = "''def''" and semi = False
        and e = "mock_env False (Inl ''down'')"
        and r = "example_request ''/repos/a/b'' ''b=1&client_id=old''"
        and m = "[]" and cfg = "\<lparr>GithubClientID = ''abc'', GithubClientSecret = ''def''\<rparr>"]
    by (simp add: conf_Watch_def init_state_def mock_env_def example_request_def
        query_example_parsed)
  have 2: "u_RawQuery (build_request (mock_env False (Inl ''down'')) init_state
        (example_request ''/repos/a/b'' ''a=2&b=1'')) = ''a=2&b=1''"
    using credential_injection [where s = init_state and e = "mock_env False (Inl ''down'')"
        and r = "example_request ''/repos/a/b'' ''a=2&b=1''"
        and m = "[(''a'', [''2'']), (''b'', [''1''])]" and semi = False
        and clientID = "''abc''" and clientSecret = "''def''"
        and cfg = "\<lparr>GithubClientID = ''abc'', GithubClientSecret = ''def''\<rparr>"] w
    by (auto simp: init_state_def example_request_def encode_example_canonical)
  from 1 2 show ?thesis by simp
qed

end
